theory Spec2Isabelle
  imports Main
begin

section \<open>Values received over the relation\<close>

text \<open>
  The requires side of the OpenStack integration interface (\<^verbatim>\<open>requires.py\<close>) reads the
  data published by the integrator charm. The framework hands that data over already decoded
  from JSON, so a received value is a Python object: \<^verbatim>\<open>None\<close>, a boolean, a number
  (an integer here), a string, a list or a dictionary.
\<close>

datatype pyval =
    PNone
  | PBool bool
  | PInt int
  | PStr string
  | PList "pyval list"
  | PDict "(string \<times> pyval) list"

text \<open>Python's truth value testing, as used by \<^verbatim>\<open>or\<close>, \<^verbatim>\<open>and\<close> and \<^verbatim>\<open>not\<close>.\<close>

fun truthy :: "pyval \<Rightarrow> bool" where
  "truthy PNone = False"
| "truthy (PBool b) = b"
| "truthy (PInt i) = (i \<noteq> 0)"
| "truthy (PStr s) = (s \<noteq> [])"
| "truthy (PList xs) = (xs \<noteq> [])"
| "truthy (PDict kvs) = (kvs \<noteq> [])"

text \<open>\<^verbatim>\<open>a or b\<close> is \<^verbatim>\<open>a\<close> when \<^verbatim>\<open>a\<close> is truthy and \<^verbatim>\<open>b\<close> otherwise (for a \<^verbatim>\<open>b\<close>
  whose evaluation cannot fail); \<^verbatim>\<open>not a\<close> is always a boolean.\<close>

definition py_or :: "pyval \<Rightarrow> pyval \<Rightarrow> pyval" where
  "py_or a b = (if truthy a then a else b)"

definition py_not :: "pyval \<Rightarrow> pyval" where
  "py_not a = PBool (\<not> truthy a)"

section \<open>The endpoint and its relations\<close>

text \<open>
  A relation carries the data received from the joined units and the data to publish. The
  endpoint has a name, its list of relations, and (here, as part of the state) the flags of
  the reactive framework, a set of flag names.
\<close>

record relation =
  received :: "string \<rightharpoonup> pyval"
  to_publish :: "string \<rightharpoonup> pyval"

record endpoint =
  endpoint_name :: string
  relations :: "relation list"
  flags :: "string set"

datatype error = IndexError

text \<open>A property or handler that raises stops the computation with the error.\<close>

fun bind_err :: "error + 'a \<Rightarrow> ('a \<Rightarrow> error + 'b) \<Rightarrow> error + 'b" where
  "bind_err (Inl e) f = Inl e"
| "bind_err (Inr x) f = f x"

text \<open>
  Modelled from the spec: the framework's view of the received data (charms.reactive, not
  part of this repository) is indexed by field name and gives the value, or null when the
  field was never sent.
\<close>

definition getitem :: "(string \<rightharpoonup> pyval) \<Rightarrow> string \<Rightarrow> pyval" where
  "getitem d k = (case d k of None \<Rightarrow> PNone | Some v \<Rightarrow> v)"

text \<open>
  Modelled from the spec: the framework's flag operations (charms.reactive, not part of this
  repository). \<^verbatim>\<open>expand_name\<close> gives the flag of this endpoint for a short name,
  \<^verbatim>\<open>endpoint.{endpoint_name}.ready\<close> for \<^verbatim>\<open>ready\<close>; \<^verbatim>\<open>set_flag\<close> and
  \<^verbatim>\<open>clear_flag\<close> add and remove one flag; \<^verbatim>\<open>toggle_flag\<close> sets the flag if the
  condition is true and clears it if false.
\<close>

definition expand_name :: "endpoint \<Rightarrow> string \<Rightarrow> string" where
  "expand_name s flag = ''endpoint.'' @ endpoint_name s @ ''.'' @ flag"

definition set_flag :: "string \<Rightarrow> endpoint \<Rightarrow> endpoint" where
  "set_flag flag s = s\<lparr>flags := insert flag (flags s)\<rparr>"

definition clear_flag :: "string \<Rightarrow> endpoint \<Rightarrow> endpoint" where
  "clear_flag flag s = s\<lparr>flags := flags s - {flag}\<rparr>"

definition toggle_flag :: "string \<Rightarrow> pyval \<Rightarrow> endpoint \<Rightarrow> endpoint" where
  "toggle_flag flag should_set s = (if truthy should_set then set_flag flag s else clear_flag flag s)"

text \<open>
  \<^verbatim>\<open>_received\<close> is \<^verbatim>\<open>self.relations[0].joined_units.received\<close>, and \<^verbatim>\<open>_to_publish\<close>
  is \<^verbatim>\<open>self.relations[0].to_publish\<close>: indexing an empty list of relations raises
  \<^verbatim>\<open>IndexError\<close>. (The leading underscore is written \<open>p_\<close>.)
\<close>

definition p_received :: "endpoint \<Rightarrow> error + (string \<rightharpoonup> pyval)" where
  "p_received s = (case relations s of [] \<Rightarrow> Inl IndexError | r # rs \<Rightarrow> Inr (received r))"

definition p_to_publish :: "endpoint \<Rightarrow> error + (string \<rightharpoonup> pyval)" where
  "p_to_publish s = (case relations s of [] \<Rightarrow> Inl IndexError | r # rs \<Rightarrow> Inr (to_publish r))"

section \<open>The field accessors\<close>

definition auth_url :: "endpoint \<Rightarrow> error + pyval" where
  "auth_url s = bind_err (p_received s) (\<lambda>d. Inr (getitem d ''auth_url''))"

definition region :: "endpoint \<Rightarrow> error + pyval" where
  "region s = bind_err (p_received s) (\<lambda>d. Inr (getitem d ''region''))"

definition username :: "endpoint \<Rightarrow> error + pyval" where
  "username s = bind_err (p_received s) (\<lambda>d. Inr (getitem d ''username''))"

definition password :: "endpoint \<Rightarrow> error + pyval" where
  "password s = bind_err (p_received s) (\<lambda>d. Inr (getitem d ''password''))"

definition user_domain_name :: "endpoint \<Rightarrow> error + pyval" where
  "user_domain_name s = bind_err (p_received s) (\<lambda>d. Inr (getitem d ''user_domain_name''))"

definition project_domain_name :: "endpoint \<Rightarrow> error + pyval" where
  "project_domain_name s = bind_err (p_received s) (\<lambda>d. Inr (getitem d ''project_domain_name''))"

definition project_name :: "endpoint \<Rightarrow> error + pyval" where
  "project_name s = bind_err (p_received s) (\<lambda>d. Inr (getitem d ''project_name''))"

definition endpoint_tls_ca :: "endpoint \<Rightarrow> error + pyval" where
  "endpoint_tls_ca s = bind_err (p_received s) (\<lambda>d. Inr (py_or (getitem d ''endpoint_tls_ca'') PNone))"

definition subnet_id :: "endpoint \<Rightarrow> error + pyval" where
  "subnet_id s = bind_err (p_received s) (\<lambda>d. Inr (getitem d ''subnet_id''))"

definition floating_network_id :: "endpoint \<Rightarrow> error + pyval" where
  "floating_network_id s = bind_err (p_received s) (\<lambda>d. Inr (getitem d ''floating_network_id''))"

definition lb_method :: "endpoint \<Rightarrow> error + pyval" where
  "lb_method s = bind_err (p_received s) (\<lambda>d. Inr (getitem d ''lb_method''))"

definition manage_security_groups :: "endpoint \<Rightarrow> error + pyval" where
  "manage_security_groups s =
     bind_err (p_received s) (\<lambda>d. Inr (py_or (getitem d ''manage_security_groups'') (PBool False)))"

definition node_security_group :: "endpoint \<Rightarrow> error + pyval" where
  "node_security_group s = bind_err (p_received s) (\<lambda>d. Inr (getitem d ''node_security_group''))"

section \<open>Readiness and the two handlers\<close>

text \<open>
  \<^verbatim>\<open>sec_grp = self.node_security_group or not self.manage_security_groups\<close>: the second
  property is read only when the first is falsy.
\<close>

definition sec_grp :: "endpoint \<Rightarrow> error + pyval" where
  "sec_grp s =
     bind_err (node_security_group s) (\<lambda>g.
       if truthy g then Inr g
       else bind_err (manage_security_groups s) (\<lambda>m. Inr (py_not m)))"

text \<open>
  \<^verbatim>\<open>return sec_grp and all(field is not None for field in [...])\<close>: a falsy
  \<^verbatim>\<open>sec_grp\<close> is returned as it is; otherwise the six properties are read in order and
  \<^verbatim>\<open>all\<close> gives a boolean.
\<close>

definition is_ready :: "endpoint \<Rightarrow> error + pyval" where
  "is_ready s =
     bind_err (sec_grp s) (\<lambda>g.
       if \<not> truthy g then Inr g
       else
         bind_err (auth_url s) (\<lambda>f1.
         bind_err (username s) (\<lambda>f2.
         bind_err (password s) (\<lambda>f3.
         bind_err (user_domain_name s) (\<lambda>f4.
         bind_err (project_domain_name s) (\<lambda>f5.
         bind_err (project_name s) (\<lambda>f6.
           Inr (PBool (list_all (\<lambda>field. field \<noteq> PNone) [f1, f2, f3, f4, f5, f6])))))))))"

text \<open>
  \<^verbatim>\<open>check_ready\<close>, the handler for \<^verbatim>\<open>endpoint.{endpoint_name}.changed\<close>: toggles the
  ready flag by \<^verbatim>\<open>is_ready\<close>, then clears the changed flag. When \<^verbatim>\<open>is_ready\<close> raises,
  no flag has been touched yet.
\<close>

definition check_ready :: "endpoint \<Rightarrow> error + endpoint" where
  "check_ready s =
     bind_err (is_ready s) (\<lambda>r.
       Inr (clear_flag (expand_name s ''changed'') (toggle_flag (expand_name s ''ready'') r s)))"

text \<open>\<^verbatim>\<open>remove_ready\<close>, the handler for the absence of \<^verbatim>\<open>endpoint.{endpoint_name}.joined\<close>.\<close>

definition remove_ready :: "endpoint \<Rightarrow> endpoint" where
  "remove_ready s = clear_flag (expand_name s ''ready'') s"

text \<open>The two handlers are the operations of the class that write to the flags.\<close>

datatype handler = Check_ready | Remove_ready

fun invoke :: "handler \<Rightarrow> endpoint \<Rightarrow> error + endpoint" where
  "invoke Check_ready s = check_ready s"
| "invoke Remove_ready s = Inr (remove_ready s)"

text \<open>The thirteen field accessors, each with the key it reads.\<close>

definition field_accessors :: "(string \<times> (endpoint \<Rightarrow> error + pyval)) list" where
  "field_accessors =
     [(''auth_url'', auth_url), (''region'', region), (''username'', username),
      (''password'', password), (''user_domain_name'', user_domain_name),
      (''project_domain_name'', project_domain_name), (''project_name'', project_name),
      (''endpoint_tls_ca'', endpoint_tls_ca), (''subnet_id'', subnet_id),
      (''floating_network_id'', floating_network_id), (''lb_method'', lb_method),
      (''manage_security_groups'', manage_security_groups),
      (''node_security_group'', node_security_group)]"

section \<open>The flags as a state machine\<close>

text \<open>
  Modelled from the spec: the dispatcher of the reactive framework (not part of this
  repository). A connection is established with an empty field set and the joined flag is
  set; new data from the peer overwrites the field set key by key and sets the changed flag;
  tearing the connection down destroys it and clears the joined flag (the module's docstring:
  the joined flag is set when the relation has been joined, and is automatically removed if
  the relation is broken). Between these events the dispatcher invokes a handler of the class
  whenever its decorator allows it: \<^verbatim>\<open>check_ready\<close> when the changed flag is set,
  \<^verbatim>\<open>remove_ready\<close> when the joined flag is not set. A handler that raises makes no step.
\<close>

datatype event = Connect | Update "string \<rightharpoonup> pyval" | Teardown | Invoke handler

inductive step :: "endpoint \<Rightarrow> event \<Rightarrow> endpoint \<Rightarrow> bool" where
  connect: "relations s = [] \<Longrightarrow>
     step s Connect
       (set_flag (expand_name s ''joined'')
         (s\<lparr>relations := [\<lparr>received = Map.empty, to_publish = Map.empty\<rparr>]\<rparr>))"
| update: "relations s = r # rs \<Longrightarrow>
     step s (Update d)
       (set_flag (expand_name s ''changed'')
         (s\<lparr>relations := r\<lparr>received := received r ++ d\<rparr> # rs\<rparr>))"
| teardown:
    "step s Teardown (clear_flag (expand_name s ''joined'') (s\<lparr>relations := []\<rparr>))"
| when_changed: "expand_name s ''changed'' \<in> flags s \<Longrightarrow> check_ready s = Inr s' \<Longrightarrow>
     step s (Invoke Check_ready) s'"
| when_not_joined: "expand_name s ''joined'' \<notin> flags s \<Longrightarrow>
     step s (Invoke Remove_ready) (remove_ready s)"

definition init :: "string \<Rightarrow> endpoint" where
  "init n = \<lparr>endpoint_name = n, relations = [], flags = {}\<rparr>"

inductive reachable :: "endpoint \<Rightarrow> bool" where
  start: "reachable (init n)"
| after: "reachable s \<Longrightarrow> step s e s' \<Longrightarrow> reachable s'"

inductive_cases step_RemoveE: "step s (Invoke Remove_ready) s'"

inductive_cases step_TeardownE: "step s Teardown s'"

text \<open>The property that the ready flag is not set while the joined flag is not set.\<close>

definition ready_only_joined :: "endpoint \<Rightarrow> bool" where
  "ready_only_joined s \<longleftrightarrow>
     (expand_name s ''ready'' \<in> flags s \<longrightarrow> expand_name s ''joined'' \<in> flags s)"

section \<open>The readiness predicate as the specification words it\<close>

text \<open>
  The specification's predicate, over the values the accessors return:
  \<^verbatim>\<open>security_ok = node_security_group != null OR manage_security_groups == false\<close>, and
  \<^verbatim>\<open>ready\<close> is \<^verbatim>\<open>security_ok\<close> and each of the six required fields \<^verbatim>\<open>!= null\<close>.
\<close>

definition spec_security_ok :: "endpoint \<Rightarrow> bool" where
  "spec_security_ok s \<longleftrightarrow>
     node_security_group s \<noteq> Inr PNone \<or> manage_security_groups s = Inr (PBool False)"

definition spec_ready :: "endpoint \<Rightarrow> bool" where
  "spec_ready s \<longleftrightarrow>
     spec_security_ok s \<and> auth_url s \<noteq> Inr PNone \<and> username s \<noteq> Inr PNone \<and>
     password s \<noteq> Inr PNone \<and> user_domain_name s \<noteq> Inr PNone \<and>
     project_domain_name s \<noteq> Inr PNone \<and> project_name s \<noteq> Inr PNone"

section \<open>Concrete endpoints\<close>

text \<open>The six required fields and nothing else, and an endpoint connected to one relation
  that has received a given field set.\<close>

definition fields_A :: "string \<rightharpoonup> pyval" where
  "fields_A = map_of
     [(''auth_url'', PStr ''u''), (''username'', PStr ''a''), (''password'', PStr ''p''),
      (''user_domain_name'', PStr ''d1''), (''project_domain_name'', PStr ''d2''),
      (''project_name'', PStr ''proj'')]"

definition connected :: "(string \<rightharpoonup> pyval) \<Rightarrow> endpoint" where
  "connected d =
     \<lparr>endpoint_name = ''openstack'',
      relations = [\<lparr>received = d, to_publish = Map.empty\<rparr>],
      flags = {''endpoint.openstack.joined''}\<rparr>"

definition disconnected :: "string set \<Rightarrow> endpoint" where
  "disconnected fl = \<lparr>endpoint_name = ''openstack'', relations = [], flags = fl\<rparr>"

section \<open>Basic facts\<close>

lemma p_received_Cons: "relations s = r # rs \<Longrightarrow> p_received s = Inr (received r)"
  by (simp add: p_received_def)

lemma p_received_Nil: "relations s = [] \<Longrightarrow> p_received s = Inl IndexError"
  by (simp add: p_received_def)

lemmas accessor_defs =
  auth_url_def region_def username_def password_def user_domain_name_def
  project_domain_name_def project_name_def endpoint_tls_ca_def subnet_id_def
  floating_network_id_def lb_method_def manage_security_groups_def node_security_group_def

lemma truthy_py_or_False: "truthy (py_or v (PBool False)) = truthy v"
  by (simp add: py_or_def)

lemma py_or_False_eq: "(py_or v (PBool False) = PBool False) = (\<not> truthy v)"
  by (cases "truthy v") (auto simp: py_or_def)

text \<open>With a relation, the security-group part of the predicate is a truthy group ID, or
  the boolean \<^verbatim>\<open>not manage_security_groups\<close>.\<close>

lemma sec_grp_Cons:
  assumes "relations s = r # rs"
  shows "\<exists>g. sec_grp s = Inr g \<and>
           truthy g = (truthy (getitem (received r) ''node_security_group'') \<or>
                       \<not> truthy (getitem (received r) ''manage_security_groups'')) \<and>
           (\<not> truthy g \<longrightarrow> g = PBool False)"
  using assms
  by (simp add: sec_grp_def node_security_group_def manage_security_groups_def
      p_received_Cons py_not_def truthy_py_or_False)

text \<open>With a relation, \<^verbatim>\<open>is_ready\<close> returns a boolean, computed from eight keys.\<close>

lemma is_ready_Cons:
  assumes "relations s = r # rs"
  shows "is_ready s =
    Inr (PBool ((truthy (getitem (received r) ''node_security_group'') \<or>
                 \<not> truthy (getitem (received r) ''manage_security_groups'')) \<and>
                getitem (received r) ''auth_url'' \<noteq> PNone \<and>
                getitem (received r) ''username'' \<noteq> PNone \<and>
                getitem (received r) ''password'' \<noteq> PNone \<and>
                getitem (received r) ''user_domain_name'' \<noteq> PNone \<and>
                getitem (received r) ''project_domain_name'' \<noteq> PNone \<and>
                getitem (received r) ''project_name'' \<noteq> PNone))"
proof -
  from sec_grp_Cons [OF assms] obtain g where g: "sec_grp s = Inr g"
    and tg: "truthy g = (truthy (getitem (received r) ''node_security_group'') \<or>
                       \<not> truthy (getitem (received r) ''manage_security_groups''))"
    and fg: "\<not> truthy g \<longrightarrow> g = PBool False" by blast
  show ?thesis
  proof (cases "truthy g")
    case True
    with g tg show ?thesis
      by (simp add: is_ready_def accessor_defs p_received_Cons [OF assms])
  next
    case False
    with g tg fg show ?thesis
      by (simp add: is_ready_def)
  qed
qed

lemma is_ready_Nil: "relations s = [] \<Longrightarrow> is_ready s = Inl IndexError"
  by (simp add: is_ready_def sec_grp_def node_security_group_def p_received_Nil)

lemma expand_name_neq: "a \<noteq> b \<Longrightarrow> expand_name s a \<noteq> expand_name s b"
  by (simp add: expand_name_def)

lemma relations_connected:
  "relations (connected d) = [\<lparr>received = d, to_publish = Map.empty\<rparr>]"
  by (simp add: connected_def)

lemma p_received_connected: "p_received (connected d) = Inr d"
  by (simp add: p_received_def connected_def)

text \<open>What each of the thirteen accessors reads.\<close>

lemma field_accessors_read:
  assumes "(k, acc) \<in> set field_accessors"
  shows "acc s = bind_err (p_received s) (\<lambda>d. Inr
     (if k = ''endpoint_tls_ca'' then py_or (getitem d k) PNone
      else if k = ''manage_security_groups'' then py_or (getitem d k) (PBool False)
      else getitem d k))"
  using assms unfolding field_accessors_def accessor_defs
  by (elim disjE | simp)+

section \<open>Readiness\<close>

text \<open>
  C1 (as amended). For every endpoint with a relation, \<^verbatim>\<open>is_ready\<close> returns a boolean, and
  it returns true if and only if (\<^verbatim>\<open>node_security_group\<close> is truthy, that is neither null
  nor empty, false or zero, or \<^verbatim>\<open>manage_security_groups\<close> is false) and each of
  \<^verbatim>\<open>auth_url\<close>, \<^verbatim>\<open>username\<close>, \<^verbatim>\<open>password\<close>, \<^verbatim>\<open>user_domain_name\<close>,
  \<^verbatim>\<open>project_domain_name\<close>, \<^verbatim>\<open>project_name\<close> is not null. In particular, with all six
  required fields present and either \<^verbatim>\<open>manage_security_groups\<close> false or a truthy
  \<^verbatim>\<open>node_security_group\<close>, \<^verbatim>\<open>is_ready\<close> returns true.
\<close>

theorem is_ready_iff:
  assumes "relations s = r # rs"
  shows "(is_ready s = Inr (PBool True) \<or> is_ready s = Inr (PBool False)) \<and>
    (is_ready s = Inr (PBool True)) =
      (((\<exists>g. node_security_group s = Inr g \<and> truthy g) \<or>
        manage_security_groups s = Inr (PBool False)) \<and>
       auth_url s \<noteq> Inr PNone \<and> username s \<noteq> Inr PNone \<and> password s \<noteq> Inr PNone \<and>
       user_domain_name s \<noteq> Inr PNone \<and> project_domain_name s \<noteq> Inr PNone \<and>
       project_name s \<noteq> Inr PNone)"
  by (auto simp: is_ready_Cons [OF assms] accessor_defs p_received_Cons [OF assms] py_or_False_eq)

text \<open>The six required fields, security groups managed, and the group \<^verbatim>\<open>sg-1\<close>: ready.\<close>

theorem is_ready_iff_witness:
  "is_ready (connected (fields_A(''manage_security_groups'' \<mapsto> PBool True,
      ''node_security_group'' \<mapsto> PStr ''sg-1''))) = Inr (PBool True)"
  using is_ready_iff [OF relations_connected,
      of "fields_A(''manage_security_groups'' \<mapsto> PBool True, ''node_security_group'' \<mapsto> PStr ''sg-1'')"]
  by (simp add: accessor_defs p_received_connected fields_A_def getitem_def py_or_def)

text \<open>
  C1 as the specification words it fails where the group ID is the empty string and the
  security groups are managed: the group ID is not null, so the specification's predicate
  holds, but \<^verbatim>\<open>is_ready\<close> tests the truth value of the ID and returns false.
\<close>

theorem is_ready_empty_group_counterexample:
  "is_ready (connected (fields_A(''manage_security_groups'' \<mapsto> PBool True,
      ''node_security_group'' \<mapsto> PStr ''''))) = Inr (PBool False) \<and>
   spec_ready (connected (fields_A(''manage_security_groups'' \<mapsto> PBool True,
      ''node_security_group'' \<mapsto> PStr '''')))"
  by (simp add: is_ready_Cons [OF relations_connected] spec_ready_def spec_security_ok_def
      accessor_defs p_received_connected fields_A_def getitem_def py_or_def)

text \<open>
  C2. For every field set in which at least one of the six required fields is absent or
  null, \<^verbatim>\<open>is_ready\<close> returns false.
\<close>

theorem is_ready_missing_required:
  assumes "relations s = r # rs"
    and "k \<in> {''auth_url'', ''username'', ''password'', ''user_domain_name'',
               ''project_domain_name'', ''project_name''}"
    and "received r k = None \<or> received r k = Some PNone"
  shows "is_ready s = Inr (PBool False)"
proof -
  from assms(3) have "getitem (received r) k = PNone"
    by (auto simp: getitem_def)
  with assms(2) show ?thesis
    by (auto simp: is_ready_Cons [OF assms(1)])
qed

text \<open>The six required fields without the password: not ready.\<close>

theorem is_ready_missing_required_witness:
  "is_ready (connected (fields_A(''password'' := None))) = Inr (PBool False)"
proof -
  have "(fields_A(''password'' := None)) ''password'' = None \<or>
        (fields_A(''password'' := None)) ''password'' = Some PNone"
    by simp
  with is_ready_missing_required [OF relations_connected, of "''password''"]
  show ?thesis by simp
qed

section \<open>Errors\<close>

text \<open>
  C3 (as amended). For every endpoint with at least one relation, every field accessor
  returns a value rather than raising, null for a field that was not received (false for
  \<^verbatim>\<open>manage_security_groups\<close>), and neither \<^verbatim>\<open>is_ready\<close> nor \<^verbatim>\<open>check_ready\<close> raises. For
  an endpoint with no relation, every field accessor, \<^verbatim>\<open>is_ready\<close> and \<^verbatim>\<open>check_ready\<close>
  raise \<^verbatim>\<open>IndexError\<close>.
\<close>

theorem accessors_with_relation:
  assumes "(k, acc) \<in> set field_accessors"
  shows "(relations s \<noteq> [] \<longrightarrow>
           (\<exists>v. acc s = Inr v) \<and> (\<exists>b. is_ready s = Inr (PBool b)) \<and>
           (\<exists>s'. check_ready s = Inr s') \<and>
           (received (hd (relations s)) k = None \<longrightarrow>
              acc s = Inr (if k = ''manage_security_groups'' then PBool False else PNone))) \<and>
         (relations s = [] \<longrightarrow>
           acc s = Inl IndexError \<and> is_ready s = Inl IndexError \<and>
           check_ready s = Inl IndexError)"
proof (cases "relations s")
  case Nil
  then show ?thesis
    by (simp add: field_accessors_read [OF assms] p_received_Nil is_ready_Nil check_ready_def)
next
  case (Cons r rs)
  from is_ready_Cons [OF Cons] obtain b where b: "is_ready s = Inr (PBool b)"
    by blast
  have "acc s = Inr (if k = ''manage_security_groups'' then PBool False else PNone)"
    if "received r k = None"
  proof -
    from that have "getitem (received r) k = PNone"
      by (simp add: getitem_def)
    then show ?thesis
      by (auto simp: field_accessors_read [OF assms] p_received_Cons [OF Cons] py_or_def)
  qed
  with Cons b show ?thesis
    by (simp add: field_accessors_read [OF assms] p_received_Cons [OF Cons] check_ready_def)
qed

text \<open>An empty field set gives a null \<^verbatim>\<open>auth_url\<close>; no relation makes \<^verbatim>\<open>is_ready\<close> raise.\<close>

theorem accessors_with_relation_witness:
  "auth_url (connected Map.empty) = Inr PNone \<and>
   is_ready (disconnected {}) = Inl IndexError"
proof -
  have m: "(''auth_url'', auth_url) \<in> set field_accessors"
    by (simp add: field_accessors_def)
  have 1: "relations (connected Map.empty) \<noteq> []" by (simp add: connected_def)
  have 2: "received (hd (relations (connected Map.empty))) ''auth_url'' = None"
    by (simp add: connected_def)
  have 3: "relations (disconnected {}) = []" by (simp add: disconnected_def)
  from accessors_with_relation [OF m, of "connected Map.empty"] 1 2
    accessors_with_relation [OF m, of "disconnected {}"] 3
  show ?thesis by simp
qed

text \<open>
  C3 as the specification words it fails for the endpoint with no relation: the accessors,
  \<^verbatim>\<open>is_ready\<close> and (with the changed flag set) \<^verbatim>\<open>check_ready\<close> raise \<^verbatim>\<open>IndexError\<close>.
\<close>

theorem accessor_without_relation_counterexample:
  "auth_url (disconnected {}) = Inl IndexError \<and>
   manage_security_groups (disconnected {}) = Inl IndexError \<and>
   is_ready (disconnected {}) = Inl IndexError \<and>
   check_ready (disconnected {''endpoint.openstack.changed''}) = Inl IndexError"
  by (simp add: accessor_defs p_received_Nil is_ready_Nil check_ready_def disconnected_def)

section \<open>The handlers\<close>

text \<open>With a relation, \<^verbatim>\<open>check_ready\<close> writes the ready flag by the boolean that
  \<^verbatim>\<open>is_ready\<close> returns, and removes the changed flag.\<close>

lemma check_ready_Cons:
  assumes "relations s = r # rs" and "is_ready s = Inr (PBool b)"
  shows "check_ready s =
    Inr (s\<lparr>flags := (if b then insert (expand_name s ''ready'') (flags s)
                       else flags s - {expand_name s ''ready''}) - {expand_name s ''changed''}\<rparr>)"
  using assms
  by (simp add: check_ready_def toggle_flag_def set_flag_def clear_flag_def)

text \<open>What \<^verbatim>\<open>check_ready\<close> and \<^verbatim>\<open>remove_ready\<close> leave alone.\<close>

lemma check_ready_frame:
  assumes "check_ready s = Inr s'"
  shows "endpoint_name s' = endpoint_name s \<and> relations s' = relations s \<and>
         (expand_name s ''joined'' \<in> flags s') = (expand_name s ''joined'' \<in> flags s)"
proof (cases "relations s")
  case Nil
  with assms show ?thesis
    by (simp add: check_ready_def is_ready_Nil)
next
  case (Cons r rs)
  from is_ready_Cons [OF Cons] obtain b where b: "is_ready s = Inr (PBool b)"
    by blast
  have ne: "expand_name s ''joined'' \<noteq> expand_name s ''ready''"
    "expand_name s ''joined'' \<noteq> expand_name s ''changed''"
    by (simp_all add: expand_name_neq)
  from assms check_ready_Cons [OF Cons b] ne show ?thesis
    by (cases b) auto
qed

lemma remove_ready_flags: "flags (remove_ready s) = flags s - {expand_name s ''ready''}"
  by (simp add: remove_ready_def clear_flag_def)

lemma remove_ready_frame:
  "endpoint_name (remove_ready s) = endpoint_name s \<and> relations (remove_ready s) = relations s"
  by (simp add: remove_ready_def clear_flag_def)

text \<open>
  C5. For every flag state and field set, \<^verbatim>\<open>check_ready\<close> (the handler for the changed
  flag) sets the ready flag exactly when \<^verbatim>\<open>is_ready\<close> evaluates true on the current field
  set, clears it when \<^verbatim>\<open>is_ready\<close> evaluates false, and clears the changed flag; no other
  flag, and neither the relations nor the endpoint's name, is modified; and a handler that
  takes the ready flag from not set to set is \<^verbatim>\<open>check_ready\<close>.
\<close>

theorem check_ready_effect:
  assumes "relations s = r # rs"
  shows "\<exists>b s'. is_ready s = Inr (PBool b) \<and> check_ready s = Inr s' \<and>
      (expand_name s ''ready'' \<in> flags s') = b \<and>
      expand_name s ''changed'' \<notin> flags s' \<and>
      (\<forall>f. f \<noteq> expand_name s ''ready'' \<and> f \<noteq> expand_name s ''changed'' \<longrightarrow>
           (f \<in> flags s') = (f \<in> flags s)) \<and>
      relations s' = relations s \<and> endpoint_name s' = endpoint_name s \<and>
      (\<forall>h t t'. invoke h t = Inr t' \<and> expand_name t ''ready'' \<notin> flags t \<and>
           expand_name t ''ready'' \<in> flags t' \<longrightarrow> h = Check_ready)"
proof -
  from is_ready_Cons [OF assms] obtain b where b: "is_ready s = Inr (PBool b)"
    by blast
  have only: "h = Check_ready"
    if "invoke h t = Inr t'" and "expand_name t ''ready'' \<in> flags t'" for h t t'
    using that by (cases h) (auto simp: remove_ready_flags)
  have ne: "expand_name s ''ready'' \<noteq> expand_name s ''changed''"
    by (simp add: expand_name_def)
  show ?thesis
    using b check_ready_Cons [OF assms b] ne only by auto
qed

text \<open>With the six required fields received and the changed flag set, \<^verbatim>\<open>check_ready\<close>
  sets the ready flag, clears the changed flag and keeps the joined flag.\<close>

theorem check_ready_effect_witness:
  "\<exists>s'. check_ready ((connected fields_A)
            \<lparr>flags := {''endpoint.openstack.joined'', ''endpoint.openstack.changed''}\<rparr>) = Inr s' \<and>
      ''endpoint.openstack.ready'' \<in> flags s' \<and> ''endpoint.openstack.changed'' \<notin> flags s' \<and>
      ''endpoint.openstack.joined'' \<in> flags s'"
proof -
  let ?s = "(connected fields_A)
            \<lparr>flags := {''endpoint.openstack.joined'', ''endpoint.openstack.changed''}\<rparr>"
  have rel: "relations ?s = \<lparr>received = fields_A, to_publish = Map.empty\<rparr> # []"
    by (simp add: connected_def)
  have rdy: "is_ready ?s = Inr (PBool True)"
    by (subst is_ready_Cons [OF rel]) (simp add: fields_A_def getitem_def)
  have nm: "expand_name ?s ''ready'' = ''endpoint.openstack.ready''"
    "expand_name ?s ''changed'' = ''endpoint.openstack.changed''"
    by (simp_all add: expand_name_def connected_def)
  from check_ready_effect [OF rel] obtain b s' where
    "is_ready ?s = Inr (PBool b)" and c: "check_ready ?s = Inr s'" and
    "(expand_name ?s ''ready'' \<in> flags s') = b" and
    ch: "expand_name ?s ''changed'' \<notin> flags s'" and
    fr: "\<forall>f. f \<noteq> expand_name ?s ''ready'' \<and> f \<noteq> expand_name ?s ''changed'' \<longrightarrow>
           (f \<in> flags s') = (f \<in> flags ?s)"
    by blast
  with rdy have r: "expand_name ?s ''ready'' \<in> flags s'" by simp
  from fr have "''endpoint.openstack.joined'' \<in> flags s'"
    by (simp add: nm)
  with c r ch show ?thesis by (auto simp: nm)
qed

section \<open>Security groups not managed\<close>

text \<open>
  C6. For every field set in which \<^verbatim>\<open>manage_security_groups\<close> is absent, the accessor
  returns false (not null), and \<^verbatim>\<open>is_ready\<close> does not depend on
  \<^verbatim>\<open>node_security_group\<close>: replacing or removing that field leaves its result unchanged,
  and with all six required fields present the result is true.
\<close>

theorem manage_security_groups_absent:
  assumes "relations s = r # rs" and "received r ''manage_security_groups'' = None"
  shows "manage_security_groups s = Inr (PBool False) \<and>
    is_ready (s\<lparr>relations := r\<lparr>received := (received r)(''node_security_group'' := x)\<rparr> # rs\<rparr>)
      = is_ready s \<and>
    ((\<forall>k \<in> {''auth_url'', ''username'', ''password'', ''user_domain_name'',
              ''project_domain_name'', ''project_name''}.
        \<exists>v. received r k = Some v \<and> v \<noteq> PNone) \<longrightarrow> is_ready s = Inr (PBool True))"
proof -
  let ?s' = "s\<lparr>relations := r\<lparr>received := (received r)(''node_security_group'' := x)\<rparr> # rs\<rparr>"
  have rel': "relations ?s' = r\<lparr>received := (received r)(''node_security_group'' := x)\<rparr> # rs"
    by simp
  from assms(2) have m: "getitem (received r) ''manage_security_groups'' = PNone"
    by (simp add: getitem_def)
  have 1: "manage_security_groups s = Inr (PBool False)"
    by (simp add: manage_security_groups_def p_received_Cons [OF assms(1)] m py_or_def)
  have 2: "is_ready ?s' = is_ready s"
    by (simp add: is_ready_Cons [OF assms(1)] is_ready_Cons [OF rel'] getitem_def assms(2))
  have 3: "is_ready s = Inr (PBool True)"
    if "\<forall>k \<in> {''auth_url'', ''username'', ''password'', ''user_domain_name'',
              ''project_domain_name'', ''project_name''}.
        \<exists>v. received r k = Some v \<and> v \<noteq> PNone"
    using that assms(2) by (auto simp: is_ready_Cons [OF assms(1)] getitem_def)
  from 1 2 3 show ?thesis by blast
qed

text \<open>The six required fields, an empty group ID and no \<^verbatim>\<open>manage_security_groups\<close>: the
  accessor gives false and the endpoint is ready.\<close>

theorem manage_security_groups_absent_witness:
  "manage_security_groups (connected (fields_A(''node_security_group'' \<mapsto> PStr ''''))) = Inr (PBool False) \<and>
   is_ready (connected (fields_A(''node_security_group'' \<mapsto> PStr ''''))) = Inr (PBool True)"
proof -
  let ?d = "fields_A(''node_security_group'' \<mapsto> PStr '''')"
  have a: "received \<lparr>received = ?d, to_publish = Map.empty\<rparr> ''manage_security_groups'' = None"
    by (simp add: fields_A_def)
  have b: "\<forall>k \<in> {''auth_url'', ''username'', ''password'', ''user_domain_name'',
              ''project_domain_name'', ''project_name''}.
        \<exists>v. received \<lparr>received = ?d, to_publish = Map.empty\<rparr> k = Some v \<and> v \<noteq> PNone"
    by (simp add: fields_A_def)
  from manage_security_groups_absent [OF relations_connected a] b
  show ?thesis by blast
qed

section \<open>What readiness depends on\<close>

text \<open>
  C7. \<^verbatim>\<open>is_ready\<close> is a function of the current field set: it reads the endpoint and
  returns a value, it writes neither a flag nor the field set (its model returns no state,
  as the property has no assignment), and two evaluations give the same value whenever the
  received data is the same at both, whatever happened to the flags in between, be it an
  arbitrary change of the flags or a run of \<^verbatim>\<open>remove_ready\<close> or \<^verbatim>\<open>check_ready\<close>.
\<close>

theorem is_ready_pure:
  "(p_received s = p_received t \<longrightarrow> is_ready s = is_ready t) \<and>
   is_ready (s\<lparr>flags := fl\<rparr>) = is_ready s \<and>
   is_ready (remove_ready s) = is_ready s \<and>
   (\<forall>s'. check_ready s = Inr s' \<longrightarrow> is_ready s' = is_ready s)"
proof -
  have dep: "is_ready a = is_ready b" if "p_received a = p_received b" for a b
    unfolding is_ready_def sec_grp_def accessor_defs that by (rule refl)
  have 1: "is_ready (s\<lparr>flags := fl\<rparr>) = is_ready s" for fl
    by (rule dep) (simp add: p_received_def)
  have 2: "is_ready (remove_ready s) = is_ready s"
    by (rule dep) (simp add: p_received_def remove_ready_frame)
  have 3: "is_ready s' = is_ready s" if "check_ready s = Inr s'" for s'
    by (rule dep) (simp add: p_received_def check_ready_frame [OF that])
  from dep 1 2 3 show ?thesis by blast
qed

text \<open>Clearing all flags of a ready endpoint leaves it ready.\<close>

theorem is_ready_pure_witness:
  "is_ready ((connected fields_A)\<lparr>flags := {}\<rparr>) = is_ready (connected fields_A) \<and>
   is_ready (connected fields_A) = Inr (PBool True)"
proof -
  have r: "is_ready (connected fields_A) = Inr (PBool True)"
    by (simp add: is_ready_Cons [OF relations_connected] fields_A_def getitem_def)
  have p: "p_received ((connected fields_A)\<lparr>flags := {}\<rparr>) = p_received (connected fields_A)"
    by (simp add: p_received_def)
  from is_ready_pure [of "(connected fields_A)\<lparr>flags := {}\<rparr>" "connected fields_A"] p r
  show ?thesis by simp
qed

text \<open>
  C8. \<^verbatim>\<open>is_ready\<close> does not depend on \<^verbatim>\<open>region\<close>, \<^verbatim>\<open>endpoint_tls_ca\<close>,
  \<^verbatim>\<open>subnet_id\<close>, \<^verbatim>\<open>floating_network_id\<close> or \<^verbatim>\<open>lb_method\<close>: for two field sets that
  agree on the six required fields, \<^verbatim>\<open>manage_security_groups\<close> and
  \<^verbatim>\<open>node_security_group\<close>, it returns the same value.
\<close>

theorem is_ready_ignores_optional:
  assumes "relations s = r # rs" and "relations s' = r' # rs'"
    and "\<forall>k \<in> {''auth_url'', ''username'', ''password'', ''user_domain_name'',
               ''project_domain_name'', ''project_name'', ''manage_security_groups'',
               ''node_security_group''}. received r k = received r' k"
  shows "is_ready s = is_ready s'"
  using assms(3)
  by (simp add: is_ready_Cons [OF assms(1)] is_ready_Cons [OF assms(2)] getitem_def)

text \<open>Adding the five optional fields to the six required ones does not change the result.\<close>

theorem is_ready_ignores_optional_witness:
  "is_ready (connected (fields_A(''region'' \<mapsto> PStr ''r1'', ''endpoint_tls_ca'' \<mapsto> PStr ''Y2E='',
      ''subnet_id'' \<mapsto> PStr ''s1'', ''floating_network_id'' \<mapsto> PStr ''f1'',
      ''lb_method'' \<mapsto> PStr ''ROUND_ROBIN''))) = is_ready (connected fields_A)"
proof -
  let ?d = "fields_A(''region'' \<mapsto> PStr ''r1'', ''endpoint_tls_ca'' \<mapsto> PStr ''Y2E='',
      ''subnet_id'' \<mapsto> PStr ''s1'', ''floating_network_id'' \<mapsto> PStr ''f1'',
      ''lb_method'' \<mapsto> PStr ''ROUND_ROBIN'')"
  have "\<forall>k \<in> {''auth_url'', ''username'', ''password'', ''user_domain_name'',
               ''project_domain_name'', ''project_name'', ''manage_security_groups'',
               ''node_security_group''}.
          received \<lparr>received = ?d, to_publish = Map.empty\<rparr> k =
          received \<lparr>received = fields_A, to_publish = Map.empty\<rparr> k"
    by simp
  from is_ready_ignores_optional [OF relations_connected relations_connected this]
  show ?thesis .
qed

section \<open>Coercion of falsy values\<close>

text \<open>
  C9. The \<^verbatim>\<open>endpoint_tls_ca\<close> accessor returns null when the received value is absent,
  null or any other falsy value, and the received value unchanged otherwise, so it never
  returns the empty string; \<^verbatim>\<open>region\<close>, \<^verbatim>\<open>subnet_id\<close>, \<^verbatim>\<open>floating_network_id\<close>,
  \<^verbatim>\<open>lb_method\<close> and \<^verbatim>\<open>node_security_group\<close> return the received value as it is.
\<close>

theorem endpoint_tls_ca_coerced:
  assumes "relations s = r # rs"
  shows "endpoint_tls_ca s =
      Inr (if truthy (getitem (received r) ''endpoint_tls_ca'')
           then getitem (received r) ''endpoint_tls_ca'' else PNone) \<and>
    (received r ''endpoint_tls_ca'' = None \<longrightarrow> endpoint_tls_ca s = Inr PNone) \<and>
    endpoint_tls_ca s \<noteq> Inr (PStr '''') \<and>
    region s = Inr (getitem (received r) ''region'') \<and>
    subnet_id s = Inr (getitem (received r) ''subnet_id'') \<and>
    floating_network_id s = Inr (getitem (received r) ''floating_network_id'') \<and>
    lb_method s = Inr (getitem (received r) ''lb_method'') \<and>
    node_security_group s = Inr (getitem (received r) ''node_security_group'')"
  by (auto simp: accessor_defs p_received_Cons [OF assms] py_or_def getitem_def)

text \<open>An empty string is seen through \<^verbatim>\<open>subnet_id\<close> and is null through
  \<^verbatim>\<open>endpoint_tls_ca\<close>.\<close>

theorem endpoint_tls_ca_coerced_witness:
  "endpoint_tls_ca (connected [''endpoint_tls_ca'' \<mapsto> PStr '''', ''subnet_id'' \<mapsto> PStr '''']) = Inr PNone \<and>
   subnet_id (connected [''endpoint_tls_ca'' \<mapsto> PStr '''', ''subnet_id'' \<mapsto> PStr '''']) = Inr (PStr '''')"
  using endpoint_tls_ca_coerced [OF relations_connected,
      of "[''endpoint_tls_ca'' \<mapsto> PStr '''', ''subnet_id'' \<mapsto> PStr '''']"]
  by (simp add: getitem_def)

text \<open>
  C10. For every received value \<open>v\<close> of the \<^verbatim>\<open>manage_security_groups\<close> field, the
  accessor returns \<open>v\<close> itself when \<open>v\<close> is truthy and \<^verbatim>\<open>False\<close> when \<open>v\<close> is falsy or
  absent; it never returns null, and a truthy value that is not a boolean is returned
  unchanged, so the result is then not a boolean.
\<close>

theorem manage_security_groups_value:
  assumes "relations s = r # rs"
  shows "manage_security_groups s =
      Inr (if truthy (getitem (received r) ''manage_security_groups'')
           then getitem (received r) ''manage_security_groups'' else PBool False) \<and>
    manage_security_groups s \<noteq> Inr PNone \<and>
    (received r ''manage_security_groups'' = None \<longrightarrow>
       manage_security_groups s = Inr (PBool False)) \<and>
    (truthy (getitem (received r) ''manage_security_groups'') \<and>
     (\<forall>b. getitem (received r) ''manage_security_groups'' \<noteq> PBool b) \<longrightarrow>
       (\<forall>b. manage_security_groups s \<noteq> Inr (PBool b)))"
  by (auto simp: manage_security_groups_def p_received_Cons [OF assms] py_or_def getitem_def)

text \<open>The string \<^verbatim>\<open>yes\<close> is returned as it is; the number zero becomes \<^verbatim>\<open>False\<close>.\<close>

theorem manage_security_groups_value_witness:
  "manage_security_groups (connected [''manage_security_groups'' \<mapsto> PStr ''yes'']) = Inr (PStr ''yes'') \<and>
   manage_security_groups (connected [''manage_security_groups'' \<mapsto> PInt 0]) = Inr (PBool False)"
  using manage_security_groups_value [OF relations_connected, of "[''manage_security_groups'' \<mapsto> PStr ''yes'']"]
    manage_security_groups_value [OF relations_connected, of "[''manage_security_groups'' \<mapsto> PInt 0]"]
  by (simp add: getitem_def)

section \<open>The flags over a run\<close>

lemma expand_name_remove_ready: "expand_name (remove_ready s) f = expand_name s f"
  by (simp add: expand_name_def remove_ready_frame)

text \<open>In every reachable state the joined flag is set exactly when there is a relation:
  every step keeps that, so it holds along every run from the initial state.\<close>

lemma step_joined_iff_relation:
  assumes "step s e s'"
    and "(expand_name s ''joined'' \<in> flags s) = (relations s \<noteq> [])"
  shows "(expand_name s' ''joined'' \<in> flags s') = (relations s' \<noteq> [])"
  using assms
proof (induction rule: step.induct)
  case (connect s)
  then show ?case by (simp add: set_flag_def expand_name_def)
next
  case (update s r rs d)
  then show ?case by (simp add: set_flag_def expand_name_def)
next
  case (teardown s)
  then show ?case by (simp add: clear_flag_def expand_name_def)
next
  case (when_changed s s')
  from check_ready_frame [OF when_changed(2)] when_changed(3)
  show ?case by (simp add: expand_name_def)
next
  case (when_not_joined s)
  have "expand_name s ''joined'' \<noteq> expand_name s ''ready''"
    by (simp add: expand_name_neq)
  with when_not_joined show ?case
    by (simp add: remove_ready_flags remove_ready_frame expand_name_remove_ready)
qed

lemma reachable_joined_iff_relation:
  "reachable s \<Longrightarrow> (expand_name s ''joined'' \<in> flags s) = (relations s \<noteq> [])"
proof (induction rule: reachable.induct)
  case (start n)
  show ?case by (simp add: init_def)
next
  case (after s e s')
  from step_joined_iff_relation [OF after(2) after(3)] show ?case .
qed

text \<open>Every step but the teardown keeps the ready flag from being set without the joined
  flag: \<^verbatim>\<open>check_ready\<close> raises where there is no relation, so it sets the ready flag
  only while the joined flag is set.\<close>

lemma step_keeps_ready_only_joined:
  assumes "step s e s'" and "e \<noteq> Teardown"
    and "(expand_name s ''joined'' \<in> flags s) = (relations s \<noteq> [])"
    and "ready_only_joined s"
  shows "ready_only_joined s'"
  using assms
proof (induction rule: step.induct)
  case (connect s)
  then show ?case by (simp add: ready_only_joined_def set_flag_def expand_name_def)
next
  case (update s r rs d)
  then show ?case by (simp add: ready_only_joined_def set_flag_def expand_name_def)
next
  case (teardown s)
  then show ?case by simp
next
  case (when_changed s s')
  from when_changed(2) have "relations s \<noteq> []"
    by (auto simp: check_ready_def is_ready_Nil)
  with when_changed(4) have "expand_name s ''joined'' \<in> flags s" by simp
  with check_ready_frame [OF when_changed(2)] show ?case
    by (simp add: ready_only_joined_def expand_name_def)
next
  case (when_not_joined s)
  show ?case
    by (simp add: ready_only_joined_def remove_ready_flags expand_name_remove_ready)
qed

text \<open>
  A run: the relation is established, the six required fields arrive, \<^verbatim>\<open>check_ready\<close>
  sets the ready flag and clears the changed flag, and the relation is torn down. The
  joined flag is gone and the ready flag is still set; \<^verbatim>\<open>remove_ready\<close> has not run yet.
\<close>

lemma reachable_torn_down: "reachable (disconnected {''endpoint.openstack.ready''})"
proof -
  define r0 where "r0 = \<lparr>received = Map.empty, to_publish = Map.empty\<rparr>"
  define s0 where "s0 = init ''openstack''"
  define s1 where "s1 = set_flag (expand_name s0 ''joined'') (s0\<lparr>relations := [r0]\<rparr>)"
  define s2 where "s2 = set_flag (expand_name s1 ''changed'')
    (s1\<lparr>relations := r0\<lparr>received := received r0 ++ fields_A\<rparr> # []\<rparr>)"
  define s3 where "s3 = s2\<lparr>flags := (insert (expand_name s2 ''ready'') (flags s2)) -
    {expand_name s2 ''changed''}\<rparr>"
  define s4 where "s4 = clear_flag (expand_name s3 ''joined'') (s3\<lparr>relations := []\<rparr>)"
  have "reachable s0" unfolding s0_def by (rule reachable.start)
  moreover have "step s0 Connect s1"
    unfolding s1_def r0_def by (rule step.connect) (simp add: s0_def init_def)
  ultimately have r1: "reachable s1" by (rule reachable.after)
  have rel1: "relations s1 = r0 # []" by (simp add: s1_def set_flag_def)
  have "step s1 (Update fields_A) s2"
    unfolding s2_def by (rule step.update [OF rel1])
  with r1 have r2: "reachable s2" by (rule reachable.after)
  have rel2: "relations s2 = r0\<lparr>received := received r0 ++ fields_A\<rparr> # []"
    by (simp add: s2_def set_flag_def)
  have rdy: "is_ready s2 = Inr (PBool True)"
    by (subst is_ready_Cons [OF rel2]) (simp add: r0_def fields_A_def getitem_def)
  have ch: "expand_name s2 ''changed'' \<in> flags s2"
    by (simp add: s2_def set_flag_def expand_name_def)
  have "check_ready s2 = Inr s3"
    unfolding s3_def by (simp add: check_ready_Cons [OF rel2 rdy])
  with ch have "step s2 (Invoke Check_ready) s3" by (rule step.when_changed)
  with r2 have r3: "reachable s3" by (rule reachable.after)
  have "step s3 Teardown s4" unfolding s4_def by (rule step.teardown)
  with r3 have r4: "reachable s4" by (rule reachable.after)
  have "s4 = disconnected {''endpoint.openstack.ready''}"
    by (auto simp: s4_def s3_def s2_def s1_def s0_def init_def disconnected_def
        set_flag_def clear_flag_def expand_name_def)
  with r4 show ?thesis by simp
qed

text \<open>
  C4 (as amended). For every prior flag state and every field set, \<^verbatim>\<open>remove_ready\<close> (the
  handler that runs whenever the joined flag is not set) clears the ready flag and changes
  no other flag and no relation. Consequently, along every run, the ready flag is not set
  right after \<^verbatim>\<open>remove_ready\<close> has run; every step other than the teardown of the
  connection keeps the ready flag from being set without the joined flag; and after a
  teardown \<^verbatim>\<open>remove_ready\<close> is enabled and its run restores that property.
\<close>

theorem remove_ready_restores:
  assumes "reachable s" and "step s e s'"
  shows "expand_name t ''ready'' \<notin> flags (remove_ready t) \<and>
    (\<forall>f. f \<noteq> expand_name t ''ready'' \<longrightarrow> (f \<in> flags (remove_ready t)) = (f \<in> flags t)) \<and>
    relations (remove_ready t) = relations t \<and>
    (e = Invoke Remove_ready \<longrightarrow> expand_name s' ''ready'' \<notin> flags s') \<and>
    (e \<noteq> Teardown \<and> ready_only_joined s \<longrightarrow> ready_only_joined s') \<and>
    (e = Teardown \<longrightarrow>
       step s' (Invoke Remove_ready) (remove_ready s') \<and> ready_only_joined (remove_ready s'))"
proof -
  have 1: "expand_name t ''ready'' \<notin> flags (remove_ready t)"
    by (simp add: remove_ready_flags)
  have 2: "\<forall>f. f \<noteq> expand_name t ''ready'' \<longrightarrow> (f \<in> flags (remove_ready t)) = (f \<in> flags t)"
    by (simp add: remove_ready_flags)
  have 3: "relations (remove_ready t) = relations t"
    by (simp add: remove_ready_frame)
  have 4: "expand_name s' ''ready'' \<notin> flags s'" if "e = Invoke Remove_ready"
  proof -
    from assms(2) that have "s' = remove_ready s"
      by (auto elim: step_RemoveE)
    then show ?thesis
      by (simp add: remove_ready_flags expand_name_remove_ready)
  qed
  have 5: "ready_only_joined s'" if "e \<noteq> Teardown" and "ready_only_joined s"
    using step_keeps_ready_only_joined [OF assms(2) that(1)
        reachable_joined_iff_relation [OF assms(1)] that(2)] .
  have 6: "step s' (Invoke Remove_ready) (remove_ready s') \<and> ready_only_joined (remove_ready s')"
    if "e = Teardown"
  proof
    from assms(2) that
    have "s' = clear_flag (expand_name s ''joined'') (s\<lparr>relations := []\<rparr>)"
      by (auto elim: step_TeardownE)
    then have "expand_name s' ''joined'' \<notin> flags s'"
      by (simp add: clear_flag_def expand_name_def)
    then show "step s' (Invoke Remove_ready) (remove_ready s')"
      by (rule step.when_not_joined)
    show "ready_only_joined (remove_ready s')"
      by (simp add: ready_only_joined_def remove_ready_flags expand_name_remove_ready)
  qed
  from 1 2 3 4 5 6 show ?thesis by blast
qed

text \<open>In the reachable state with the ready flag and no joined flag, \<^verbatim>\<open>remove_ready\<close>
  is a step, and the ready flag is not set after it.\<close>

theorem remove_ready_restores_witness:
  "reachable (disconnected {''endpoint.openstack.ready''}) \<and>
   step (disconnected {''endpoint.openstack.ready''}) (Invoke Remove_ready)
     (remove_ready (disconnected {''endpoint.openstack.ready''})) \<and>
   ''endpoint.openstack.ready'' \<notin> flags (remove_ready (disconnected {''endpoint.openstack.ready''}))"
proof -
  let ?s = "disconnected {''endpoint.openstack.ready''}"
  have "expand_name ?s ''joined'' \<notin> flags ?s"
    by (simp add: disconnected_def expand_name_def)
  then have st: "step ?s (Invoke Remove_ready) (remove_ready ?s)"
    by (rule step.when_not_joined)
  have nm: "expand_name (remove_ready ?s) ''ready'' = ''endpoint.openstack.ready''"
    by (simp add: expand_name_def remove_ready_frame disconnected_def)
  from remove_ready_restores [OF reachable_torn_down st] nm reachable_torn_down st
  show ?thesis by simp
qed

text \<open>
  C4 as the specification words it fails in the state between the teardown and the run of
  \<^verbatim>\<open>remove_ready\<close>: that state is reachable, its ready flag is set and its joined flag is
  not.
\<close>

theorem ready_without_joined_counterexample:
  "reachable (disconnected {''endpoint.openstack.ready''}) \<and>
   expand_name (disconnected {''endpoint.openstack.ready''}) ''ready''
     \<in> flags (disconnected {''endpoint.openstack.ready''}) \<and>
   expand_name (disconnected {''endpoint.openstack.ready''}) ''joined''
     \<notin> flags (disconnected {''endpoint.openstack.ready''}) \<and>
   \<not> ready_only_joined (disconnected {''endpoint.openstack.ready''})"
  using reachable_torn_down
  by (simp add: ready_only_joined_def disconnected_def expand_name_def)

end
